theory Spec2Isabelle
  imports Complex_Main "HOL-Library.AList" "HOL-Library.Char_ord"
begin

section \<open>JavaScript numbers\<close>

text \<open>
  The quality heuristics and the encoding comparison compute on JavaScript numbers.
  The model keeps the finite values as reals and writes the one non-finite value that the
  modelled functions can produce from finite inputs, \<open>NaN\<close> (from \<open>0 / 0\<close>), as a
  constructor of its own: HOL's \<open>0 / 0 = 0\<close> is not what the program computes.
  Rounding is not modelled.
\<close>

datatype jsnum = Num real | NaN

text \<open>\<open>a >= b\<close> on numbers: every comparison with \<open>NaN\<close> is false.\<close>

fun js_ge :: "jsnum \<Rightarrow> jsnum \<Rightarrow> bool" where
  "js_ge (Num a) (Num b) = (b \<le> a)"
| "js_ge _ _ = False"

text \<open>
  Arithmetic propagates \<open>NaN\<close>. Reading a typed array past its end gives \<open>undefined\<close>,
  which arithmetic turns into \<open>NaN\<close>.
\<close>

fun jadd :: "jsnum \<Rightarrow> jsnum \<Rightarrow> jsnum" where
  "jadd (Num a) (Num b) = Num (a + b)"
| "jadd _ _ = NaN"

fun jsub :: "jsnum \<Rightarrow> jsnum \<Rightarrow> jsnum" where
  "jsub (Num a) (Num b) = Num (a - b)"
| "jsub _ _ = NaN"

fun jmul :: "jsnum \<Rightarrow> jsnum \<Rightarrow> jsnum" where
  "jmul (Num a) (Num b) = Num (a * b)"
| "jmul _ _ = NaN"

fun jneg :: "jsnum \<Rightarrow> jsnum" where
  "jneg (Num a) = Num (- a)"
| "jneg NaN = NaN"

fun jabs :: "jsnum \<Rightarrow> jsnum" where
  "jabs (Num a) = Num \<bar>a\<bar>"
| "jabs NaN = NaN"

fun jsqrt :: "jsnum \<Rightarrow> jsnum" where
  "jsqrt (Num a) = (if a < 0 then NaN else Num (sqrt a))"
| "jsqrt NaN = NaN"

fun jmax :: "jsnum \<Rightarrow> jsnum \<Rightarrow> jsnum" where
  "jmax (Num a) (Num b) = Num (max a b)"
| "jmax _ _ = NaN"

fun jmin :: "jsnum \<Rightarrow> jsnum \<Rightarrow> jsnum" where
  "jmin (Num a) (Num b) = Num (min a b)"
| "jmin _ _ = NaN"

text \<open>
  \<open>x / n\<close> for the divisors of the modelled functions: pixel counts and products of image
  dimensions. Such a divisor is \<open>0\<close> only when the loop that accumulates \<open>x\<close> has not run,
  so that \<open>x\<close> is \<open>0\<close> and the quotient is \<open>0 / 0\<close>.
\<close>

fun jdiv :: "jsnum \<Rightarrow> real \<Rightarrow> jsnum" where
  "jdiv (Num a) n = (if n = 0 then NaN else Num (a / n))"
| "jdiv NaN n = NaN"

section \<open>faceRecognitionAPI.js: compareFaceEncodings\<close>

text \<open>
  \<^verbatim>\<open>for (let i = 0; i < encoding1.length; i++) distance += Math.pow(encoding1[i] - encoding2[i], 2)\<close>
  run on two arrays of the same length, with the running value of \<open>distance\<close> as accumulator.
\<close>

fun sumSquares :: "real list \<Rightarrow> real list \<Rightarrow> real \<Rightarrow> real" where
  "sumSquares (x # xs) (y # ys) distance = sumSquares xs ys (distance + (x - y)\<^sup>2)"
| "sumSquares _ _ distance = distance"

record comparison =
  match :: bool
  similarity :: jsnum
  distance :: "real option"

text \<open>
  The result object; \<open>distance\<close> is absent (\<open>None\<close>) on the early return for unequal lengths.
  \<open>Math.max(0, 1 - distance / Math.sqrt(n))\<close>: for \<open>n = 0\<close> the loop has not run, the
  quotient is \<open>0 / 0\<close>, and \<open>Math.max\<close> of a \<open>NaN\<close> is \<open>NaN\<close>.
\<close>

definition compareFaceEncodings :: "real list \<Rightarrow> real list \<Rightarrow> real \<Rightarrow> comparison" where
  "compareFaceEncodings encoding1 encoding2 threshold =
     (if length encoding1 \<noteq> length encoding2
      then \<lparr>match = False, similarity = Num 0, distance = None\<rparr>
      else
        let d = sqrt (sumSquares encoding1 encoding2 0);
            sim = (if length encoding1 = 0 then NaN
                   else Num (max 0 (1 - d / sqrt (real (length encoding1)))))
        in \<lparr>match = js_ge sim (Num threshold), similarity = sim, distance = Some d\<rparr>)"

text \<open>The default value of the \<open>threshold\<close> parameter.\<close>

definition defaultThreshold :: real where
  "defaultThreshold = 0.6"

section \<open>Pixel statistics of one frame\<close>

text \<open>
  An \<open>ImageData\<close>: the RGBA bytes of the frame, row by row, and its dimensions.
\<close>

record imageData =
  data :: "nat list"
  width :: nat
  height :: nat

definition px :: "nat list \<Rightarrow> nat \<Rightarrow> jsnum" where
  "px d i = (if i < length d then Num (real (d ! i)) else NaN)"

subsection \<open>BasicBiometricCapture.jsx: extractBiometricData and calculateSharpness\<close>

text \<open>\<open>0.299 * r + 0.587 * g + 0.114 * b\<close>\<close>

definition luminance :: "jsnum \<Rightarrow> jsnum \<Rightarrow> jsnum \<Rightarrow> jsnum" where
  "luminance r g b =
     jadd (jadd (jmul (Num 0.299) r) (jmul (Num 0.587) g)) (jmul (Num 0.114) b)"

text \<open>
  The first loop, \<open>for (let i = 0; i < data.length; i += 4)\<close>, with \<open>totalBrightness\<close> and
  \<open>pixelCount\<close> as the state.
\<close>

function brightnessLoop :: "nat list \<Rightarrow> nat \<Rightarrow> jsnum \<Rightarrow> nat \<Rightarrow> jsnum \<times> nat" where
  "brightnessLoop d i totalBrightness pixelCount =
     (if i < length d
      then brightnessLoop d (i + 4)
             (jadd totalBrightness (luminance (px d i) (px d (i + 1)) (px d (i + 2))))
             (pixelCount + 1)
      else (totalBrightness, pixelCount))"
  by pat_completeness auto
termination
  by (relation "measure (\<lambda>(d, i, t, c). length d - i)") auto

declare brightnessLoop.simps [simp del]

text \<open>The second loop accumulates \<open>Math.pow(brightness - avgBrightness, 2)\<close>.\<close>

function contrastLoop :: "nat list \<Rightarrow> jsnum \<Rightarrow> nat \<Rightarrow> jsnum \<Rightarrow> jsnum" where
  "contrastLoop d avgBrightness i totalContrast =
     (if i < length d
      then contrastLoop d avgBrightness (i + 4)
             (jadd totalContrast
                (let b = jsub (luminance (px d i) (px d (i + 1)) (px d (i + 2))) avgBrightness
                 in jmul b b))
      else totalContrast)"
  by pat_completeness auto
termination
  by (relation "measure (\<lambda>(d, a, i, t). length d - i)") auto

declare contrastLoop.simps [simp del]

text \<open>
  The Sobel sums of \<open>calculateSharpness\<close> read the red channel only:
  \<open>data[(y * width + x) * 4]\<close>.
\<close>

definition red :: "nat list \<Rightarrow> nat \<Rightarrow> nat \<Rightarrow> nat \<Rightarrow> jsnum" where
  "red d w x y = px d ((y * w + x) * 4)"

definition sobelX :: "nat list \<Rightarrow> nat \<Rightarrow> nat \<Rightarrow> nat \<Rightarrow> jsnum" where
  "sobelX d w x y =
     jadd (jadd (jadd (jadd (jadd
       (jneg (red d w (x - 1) (y - 1)))
       (red d w (x + 1) (y - 1)))
       (jmul (Num (-2)) (red d w (x - 1) y)))
       (jmul (Num 2) (red d w (x + 1) y)))
       (jneg (red d w (x - 1) (y + 1))))
       (red d w (x + 1) (y + 1))"

definition sobelY :: "nat list \<Rightarrow> nat \<Rightarrow> nat \<Rightarrow> nat \<Rightarrow> jsnum" where
  "sobelY d w x y =
     jadd (jadd (jadd (jsub (jsub
       (jneg (red d w (x - 1) (y - 1)))
       (jmul (Num 2) (red d w x (y - 1))))
       (red d w (x + 1) (y - 1)))
       (red d w (x - 1) (y + 1)))
       (jmul (Num 2) (red d w x (y + 1))))
       (red d w (x + 1) (y + 1))"

text \<open>
  The two nested loops, \<open>y\<close> from 1 to \<open>height - 2\<close> and \<open>x\<close> from 1 to \<open>width - 2\<close>,
  as folds over the index ranges; the divisor \<open>(width - 2) * (height - 2)\<close> is computed on
  integers, since it is negative for an image one pixel wide.
\<close>

definition calculateSharpness :: "imageData \<Rightarrow> jsnum" where
  "calculateSharpness img =
     (let d = data img; w = width img; h = height img;
          total =
            fold (\<lambda>y acc.
              fold (\<lambda>x acc'.
                jadd acc'
                  (jsqrt (jadd (jmul (sobelX d w x y) (sobelX d w x y))
                               (jmul (sobelY d w x y) (sobelY d w x y)))))
                [1 ..< w - 1] acc)
              [1 ..< h - 1] (Num 0)
      in jdiv total (real_of_int ((int w - 2) * (int h - 2))))"

text \<open>
  The score bundle of \<open>extractBiometricData\<close>. The record keeps the three pixel statistics
  and the one field that is read from the environment, the \<open>Date.now()\<close> time stamp; the
  colour averages and the face region, which are not scores, are left out.
\<close>

record biometricData =
  bd_brightness :: jsnum
  bd_contrast :: jsnum
  bd_sharpness :: jsnum
  bd_timestamp :: nat

definition extractBiometricData :: "nat \<Rightarrow> imageData \<Rightarrow> biometricData" where
  "extractBiometricData now img =
     (let (totalBrightness, pixelCount) = brightnessLoop (data img) 0 (Num 0) 0;
          avgBrightness = jdiv totalBrightness (real pixelCount);
          totalContrast = contrastLoop (data img) avgBrightness 0 (Num 0)
      in \<lparr>bd_brightness = avgBrightness,
          bd_contrast = jsqrt (jdiv totalContrast (real pixelCount)),
          bd_sharpness = calculateSharpness img,
          bd_timestamp = now\<rparr>)"

subsection \<open>faceRecognitionAPI.js: calculateImageQuality and detectLiveness\<close>

text \<open>\<open>(data[i] + data[i + 1] + data[i + 2]) / 3\<close>\<close>

definition pixelBrightness :: "nat list \<Rightarrow> nat \<Rightarrow> jsnum" where
  "pixelBrightness d i = jdiv (jadd (jadd (px d i) (px d (i + 1))) (px d (i + 2))) 3"

function sumBrightness :: "nat list \<Rightarrow> nat \<Rightarrow> jsnum \<Rightarrow> jsnum" where
  "sumBrightness d i brightness =
     (if i < length d then sumBrightness d (i + 4) (jadd brightness (pixelBrightness d i))
      else brightness)"
  by pat_completeness auto
termination
  by (relation "measure (\<lambda>(d, i, b). length d - i)") auto

declare sumBrightness.simps [simp del]

function sumVariance :: "nat list \<Rightarrow> jsnum \<Rightarrow> nat \<Rightarrow> jsnum \<Rightarrow> jsnum" where
  "sumVariance d mean i variance =
     (if i < length d
      then sumVariance d mean (i + 4)
             (jadd variance (let b = jsub (pixelBrightness d i) mean in jmul b b))
      else variance)"
  by pat_completeness auto
termination
  by (relation "measure (\<lambda>(d, m, i, v). length d - i)") auto

declare sumVariance.simps [simp del]

record quality =
  q_brightness :: jsnum
  q_contrast :: jsnum
  q_sharpness :: jsnum
  q_overall :: jsnum

definition calculateImageQuality :: "imageData \<Rightarrow> quality" where
  "calculateImageQuality img =
     (let d = data img;
          n = real (length d) / 4;
          brightness = jdiv (jdiv (sumBrightness d 0 (Num 0)) n) 255;
          mean = jmul brightness (Num 255);
          variance = sumVariance d mean 0 (Num 0);
          contrast = jdiv (jsqrt (jdiv variance n)) 128;
          sharpness = jmin (jmul contrast (Num 2)) (Num 1);
          brightnessScore = jsub (Num 1) (jmul (jabs (jsub brightness (Num 0.55))) (Num 2))
      in \<lparr>q_brightness = jmax (Num 0) brightnessScore,
          q_contrast = jmin contrast (Num 1),
          q_sharpness = sharpness,
          q_overall =
            jdiv (jadd (jadd (jmax (Num 0) brightnessScore) (jmin contrast (Num 1))) sharpness) 3\<rparr>)"

text \<open>
  \<open>detectLiveness\<close> draws three values from \<open>Math.random()\<close>; the model takes them as
  arguments, in the order of the calls.
\<close>

record liveness =
  textureAnalysis :: jsnum
  depthAnalysis :: real
  microMovements :: real
  blinkDetection :: bool
  l_overall :: jsnum

definition detectLiveness :: "real \<Rightarrow> real \<Rightarrow> real \<Rightarrow> imageData \<Rightarrow> liveness" where
  "detectLiveness random1 random2 random3 img =
     (let q = calculateImageQuality img
      in \<lparr>textureAnalysis = q_sharpness q,
          depthAnalysis = random1 * 0.3 + 0.7,
          microMovements = random2 * 0.4 + 0.6,
          blinkDetection = (random3 > 0.5),
          l_overall = jdiv (jadd (jadd (q_sharpness q) (Num 0.7)) (Num 0.6)) 3\<rparr>)"

section \<open>BiometricCapture.jsx: the manual multi-angle capture\<close>

text \<open>
  The component state is a record; every handler and callback of the component is a
  function from state to state, named as in the source. What a handler reads from the
  browser (the outcome of \<open>getUserMedia\<close>, the dimensions of the video, the encoded blob,
  the clock) is an argument. Display-only state (\<open>analysis\<close>, \<open>isAnalyzing\<close>) is left out.
\<close>

type_synonym angle = string

definition angles :: "angle list" where
  "angles = [''Center'', ''Left'', ''Right'', ''Up'', ''Down'']"

record capture =
  blob :: nat
  url :: nat
  timestamp :: nat

text \<open>
  \<open>capturedImages\<close> is a JavaScript object used as a dictionary from angle label to capture.
  Its keys are kept in insertion order, \<open>{...prev, [angle]: c}\<close> replaces the value of a key
  that is present and appends a new key otherwise, and \<open>delete\<close> removes a key: the
  association-list operations \<open>AList.update\<close> and \<open>AList.delete\<close>.

  \<open>toBlobPending\<close> holds the angles of the \<open>canvas.toBlob\<close> calls whose callback has not
  run yet, \<open>autoStopPending\<close> counts the 500 ms timers set after a fifth capture, and
  \<open>timeoutPending\<close> says whether the 5 s timer of the mount effect is still to fire.
\<close>

record biometricCapture =
  stream :: "nat option"
  capturedImages :: "(angle \<times> capture) list"
  isRegistering :: bool
  cameraError :: "string option"
  isVideoReady :: bool
  toBlobPending :: "angle list"
  autoStopPending :: nat
  timeoutPending :: bool

definition initialState :: biometricCapture where
  "initialState =
     \<lparr>stream = None, capturedImages = [], isRegistering = False, cameraError = None,
      isVideoReady = False, toBlobPending = [], autoStopPending = 0, timeoutPending = True\<rparr>"

text \<open>
  \<open>navigator.mediaDevices.getUserMedia\<close> resolves with a stream or rejects with an
  exception, of which the model keeps the name (\<open>NotAllowedError\<close> when the user declines,
  \<open>NotFoundError\<close> when there is no camera, ...).
\<close>

datatype getUserMedia = Resolved nat | Rejected string

text \<open>
  \<open>startCamera\<close> runs in two parts. The call clears the error and the ready flag and
  issues the request; the rest runs when the request settles, and other events can come
  between the two. \<open>startCamera outcome\<close> is a call whose request settles with \<open>outcome\<close>
  before anything else happens.
\<close>

definition startCameraCalled :: "biometricCapture \<Rightarrow> biometricCapture" where
  "startCameraCalled s = s\<lparr>cameraError := None, isVideoReady := False\<rparr>"

definition getUserMediaSettled :: "getUserMedia \<Rightarrow> biometricCapture \<Rightarrow> biometricCapture" where
  "getUserMediaSettled outcome s =
     (case outcome of
        Resolved mediaStream \<Rightarrow> s\<lparr>stream := Some mediaStream\<rparr>
      | Rejected name \<Rightarrow>
          s\<lparr>cameraError := Some ''Camera access failed. Please allow permissions.''\<rparr>)"

definition startCamera :: "getUserMedia \<Rightarrow> biometricCapture \<Rightarrow> biometricCapture" where
  "startCamera outcome s = getUserMediaSettled outcome (startCameraCalled s)"

text \<open>
  The callback of the 5 s timer. The effect that sets the timer has an empty dependency
  list, so the callback reads the \<open>stream\<close> and \<open>cameraError\<close> of the render in which the
  effect ran; they are arguments here, and \<open>step\<close> below passes the values of the first
  render.
\<close>

definition cameraTimeout ::
  "nat option \<Rightarrow> string option \<Rightarrow> biometricCapture \<Rightarrow> biometricCapture" where
  "cameraTimeout stream0 cameraError0 s =
     (if stream0 = None \<and> cameraError0 = None
      then s\<lparr>cameraError := Some ''Camera timeout. Click Start Camera to try again.''\<rparr>
      else s)"

definition stopCamera :: "biometricCapture \<Rightarrow> biometricCapture" where
  "stopCamera s =
     (if stream s \<noteq> None then s\<lparr>stream := None, isVideoReady := False\<rparr> else s)"

text \<open>The two outcomes of \<open>video.play()\<close> after \<open>loadedmetadata\<close>.\<close>

definition videoPlaying :: "biometricCapture \<Rightarrow> biometricCapture" where
  "videoPlaying s = s\<lparr>isVideoReady := True, cameraError := None\<rparr>"

definition videoPlayFailed :: "biometricCapture \<Rightarrow> biometricCapture" where
  "videoPlayFailed s = s\<lparr>cameraError := Some ''Failed to start video playback''\<rparr>"

text \<open>
  \<open>captureImage(angle)\<close> up to the call of \<open>canvas.toBlob\<close>. The video and canvas elements
  are rendered exactly when \<open>stream\<close> is set, so \<open>!videoRef.current || !canvasRef.current\<close>
  holds exactly when \<open>!stream\<close> does. The arguments after the angle are
  \<open>video.videoWidth\<close> and \<open>video.videoHeight\<close>.
\<close>

definition captureImage :: "angle \<Rightarrow> nat \<Rightarrow> nat \<Rightarrow> biometricCapture \<Rightarrow> biometricCapture" where
  "captureImage a videoWidth videoHeight s =
     (if stream s = None \<or> \<not> isVideoReady s
      then s\<lparr>cameraError := Some ''Camera not ready for capture''\<rparr>
      else if videoWidth = 0 \<or> videoHeight = 0
      then s\<lparr>cameraError := Some ''Video dimensions not available''\<rparr>
      else s\<lparr>toBlobPending := toBlobPending s @ [a]\<rparr>)"

text \<open>
  The callback of \<open>canvas.toBlob\<close>, for the oldest pending call: \<open>b\<close> is the blob (or
  \<open>null\<close>), \<open>u\<close> the object URL made for it and \<open>now\<close> the clock. When the updated
  dictionary has five keys a timer is set that stops the camera 500 ms later.
\<close>

definition toBlobCallback :: "nat option \<Rightarrow> nat \<Rightarrow> nat \<Rightarrow> biometricCapture \<Rightarrow> biometricCapture" where
  "toBlobCallback b u now s =
     (case toBlobPending s of
        [] \<Rightarrow> s
      | a # pending \<Rightarrow>
          (case b of
             None \<Rightarrow> s\<lparr>toBlobPending := pending\<rparr>
           | Some bl \<Rightarrow>
               let newImages =
                     AList.update a \<lparr>blob = bl, url = u, timestamp = now\<rparr> (capturedImages s)
               in s\<lparr>toBlobPending := pending,
                    capturedImages := newImages,
                    cameraError := None,
                    autoStopPending :=
                      (if length newImages = 5 then autoStopPending s + 1
                       else autoStopPending s)\<rparr>))"

text \<open>
  The callback of the 500 ms timer. Its \<open>stream\<close> is the one \<open>captureImage\<close> saw, which
  is set, so the callback always clears the state.
\<close>

definition autoStop :: "biometricCapture \<Rightarrow> biometricCapture" where
  "autoStop s =
     (if autoStopPending s = 0 then s
      else s\<lparr>autoStopPending := autoStopPending s - 1, stream := None, isVideoReady := False\<rparr>)"

definition removeImage :: "angle \<Rightarrow> biometricCapture \<Rightarrow> biometricCapture" where
  "removeImage a s = s\<lparr>capturedImages := AList.delete a (capturedImages s)\<rparr>"

text \<open>
  \<open>retakeAll\<close> empties the dictionary and calls \<open>startCamera\<close>: \<open>retakeAllCalled\<close> is the
  handler up to the request, \<open>retakeAll outcome\<close> the handler with a request that settles
  before anything else happens.
\<close>

definition retakeAllCalled :: "biometricCapture \<Rightarrow> biometricCapture" where
  "retakeAllCalled s = startCameraCalled (s\<lparr>capturedImages := [], cameraError := None\<rparr>)"

definition retakeAll :: "getUserMedia \<Rightarrow> biometricCapture \<Rightarrow> biometricCapture" where
  "retakeAll outcome s = startCamera outcome (s\<lparr>capturedImages := [], cameraError := None\<rparr>)"

definition capturedCount :: "biometricCapture \<Rightarrow> nat" where
  "capturedCount s = length (capturedImages s)"

definition canRegister :: "biometricCapture \<Rightarrow> bool" where
  "canRegister s = (capturedCount s \<ge> 2)"

text \<open>
  The object handed to \<open>onCapture\<close>. \<open>face_image\<close> stands for the base64 text of the blob
  of the Center capture; the scores are the constants of the source.
\<close>

record registration =
  face_image :: nat
  employee_id :: string
  angles_registered :: "angle list"
  total_angles :: nat
  qualityScore :: nat
  totalCaptures :: nat
  livenessScore :: nat
  antispoofingScore :: nat

text \<open>
  \<open>registerBiometric\<close> with the \<open>employeeId\<close> property (\<open>None\<close> when it is not given; the
  empty string is falsy too). The result is the new state and what was handed to
  \<open>onCapture\<close>, if anything. Reading the blob is taken to succeed, so that \<open>isRegistering\<close>
  is reset on every path.
\<close>

definition registerBiometric ::
  "string option \<Rightarrow> biometricCapture \<Rightarrow> biometricCapture \<times> registration option" where
  "registerBiometric employeeId s =
     (let imageCount = length (capturedImages s)
      in if imageCount < 2 \<or> employeeId = None \<or> employeeId = Some ''''
         then (s\<lparr>cameraError := Some ''Need at least 2 captured images and valid employee ID''\<rparr>,
               None)
         else
           (case map_of (capturedImages s) ''Center'' of
              Some centerImage \<Rightarrow>
                (s\<lparr>isRegistering := False\<rparr>,
                 Some \<lparr>face_image = blob centerImage,
                       employee_id = the employeeId,
                       angles_registered = map fst (capturedImages s),
                       total_angles = imageCount,
                       qualityScore = 95,
                       totalCaptures = imageCount,
                       livenessScore = 98,
                       antispoofingScore = 96\<rparr>)
            | None \<Rightarrow>
                (s\<lparr>cameraError := Some ''Center image not found'', isRegistering := False\<rparr>,
                 None)))"

text \<open>
  The cleanup of the effect that depends on \<open>stopCamera\<close> and \<open>capturedImages\<close>. React runs
  it when either of the two has changed and when the component unmounts, and it calls the
  \<open>stopCamera\<close> of the render that registered the effect: the \<open>stream\<close> that this
  \<open>stopCamera\<close> tests is the argument \<open>stream0\<close>.
\<close>

definition effectCleanup :: "nat option \<Rightarrow> biometricCapture \<Rightarrow> biometricCapture" where
  "effectCleanup stream0 s =
     (if stream0 \<noteq> None then s\<lparr>stream := None, isVideoReady := False\<rparr> else s)"

text \<open>
  What can happen to the mounted component, one event at a time. A tile click runs
  \<open>isVideoReady && captureImage(angle)\<close>. A call of \<open>startCamera\<close> or \<open>retakeAll\<close> and the
  settling of its device request are two events. The model does not decide when the effect
  cleanup runs: it is an event like the others, with the stream of the render it comes
  from, so that what holds for every sequence of events holds for the sequences React
  produces.
\<close>

datatype event =
    StartCamera
  | GetUserMediaSettles getUserMedia
  | CameraTimeout
  | VideoPlaying
  | VideoPlayFailed
  | StopCamera
  | EffectCleanup "nat option"
  | CaptureImage angle nat nat
  | ToBlobCallback "nat option" nat nat
  | AutoStop
  | RemoveImage angle
  | RetakeAll
  | RegisterBiometric "string option"

fun step :: "event \<Rightarrow> biometricCapture \<Rightarrow> biometricCapture" where
  "step StartCamera s = startCameraCalled s"
| "step (GetUserMediaSettles outcome) s = getUserMediaSettled outcome s"
| "step CameraTimeout s =
     (if timeoutPending s
      then cameraTimeout (stream initialState) (cameraError initialState)
             (s\<lparr>timeoutPending := False\<rparr>)
      else s)"
| "step VideoPlaying s = videoPlaying s"
| "step VideoPlayFailed s = videoPlayFailed s"
| "step StopCamera s = stopCamera s"
| "step (EffectCleanup stream0) s = effectCleanup stream0 s"
| "step (CaptureImage a w h) s = (if isVideoReady s then captureImage a w h s else s)"
| "step (ToBlobCallback b u now) s = toBlobCallback b u now s"
| "step AutoStop s = autoStop s"
| "step (RemoveImage a) s = removeImage a s"
| "step RetakeAll s = retakeAllCalled s"
| "step (RegisterBiometric employeeId) s = fst (registerBiometric employeeId s)"

definition run :: "event list \<Rightarrow> biometricCapture \<Rightarrow> biometricCapture" where
  "run es s = fold step es s"

text \<open>The tiles that can be clicked are those of \<open>angles\<close>.\<close>

fun fromUI :: "event \<Rightarrow> bool" where
  "fromUI (CaptureImage a w h) = (a \<in> set angles)"
| "fromUI _ = True"

section \<open>BasicBiometricCapture.jsx: the guided five-angle capture\<close>

definition angleNames :: "string list" where
  "angleNames = [''Frontal'', ''Left Profile'', ''Right Profile'', ''Up Angle'', ''Down Angle'']"

text \<open>\<open>name.toLowerCase().replace(' ', '_')\<close>: \<open>replace\<close> with a string pattern replaces the
  first occurrence only.\<close>

definition toLowerCase :: "string \<Rightarrow> string" where
  "toLowerCase s =
     map (\<lambda>c. if CHR ''A'' \<le> c \<and> c \<le> CHR ''Z'' then char_of (of_char c + (32 :: nat)) else c) s"

fun replaceFirst :: "char \<Rightarrow> char \<Rightarrow> string \<Rightarrow> string" where
  "replaceFirst a b [] = []"
| "replaceFirst a b (c # cs) = (if c = a then b # cs else c # replaceFirst a b cs)"

definition angleLabel :: "nat \<Rightarrow> string" where
  "angleLabel i = replaceFirst CHR '' '' CHR ''_'' (toLowerCase (angleNames ! i))"

text \<open>
  One entry of the \<open>capturedImages\<close> array: \<open>image\<close> stands for the data URL of the frame.
\<close>

record snapshot =
  sn_angle :: string
  image :: nat
  sn_timestamp :: nat
  biometricData :: biometricData
  resolution :: "nat \<times> nat"

text \<open>
  The state of the component, with what is pending: \<open>timers\<close> are the 500 ms callbacks set
  by \<open>captureImage\<close>, each with the \<open>currentAngle\<close> and the \<open>capturedImages\<close> of the render
  whose handler set it (the callback and the \<open>completeCapture\<close> it calls are closures of
  that render); \<open>inFlight\<close> counts the registration requests that have not returned, and
  \<open>submitted\<close> lists the captures each request sent.
\<close>

record guidedCapture =
  g_capturedImages :: "snapshot list"
  currentAngle :: nat
  isCapturing :: bool
  timers :: "(nat \<times> snapshot list) list"
  inFlight :: nat
  submitted :: "snapshot list list"

definition guidedInitial :: guidedCapture where
  "guidedInitial =
     \<lparr>g_capturedImages = [], currentAngle = 0, isCapturing = False, timers = [],
      inFlight = 0, submitted = []\<rparr>"

text \<open>
  \<open>captureImage\<close>, for a frame \<open>frame\<close> with data URL \<open>img\<close> at time \<open>now\<close>. A frame without
  pixels makes \<open>getImageData\<close> throw, and an index past the end of \<open>angles\<close> makes the
  property access throw; both after \<open>setIsCapturing(true)\<close> and before anything else.
  The video and canvas elements are always rendered.
\<close>

definition g_captureImage :: "imageData \<Rightarrow> nat \<Rightarrow> nat \<Rightarrow> guidedCapture \<Rightarrow> guidedCapture" where
  "g_captureImage frame img now s =
     (if length (g_capturedImages s) \<ge> 5 then s
      else if width frame = 0 \<or> height frame = 0 \<or> currentAngle s \<ge> length angleNames
      then s\<lparr>isCapturing := True\<rparr>
      else
        let newCapture =
              \<lparr>sn_angle = angleLabel (currentAngle s), image = img, sn_timestamp = now,
               biometricData = extractBiometricData now frame,
               resolution = (width frame, height frame)\<rparr>
        in s\<lparr>isCapturing := True,
             g_capturedImages := take 5 (g_capturedImages s @ [newCapture]),
             timers := timers s @ [(currentAngle s, g_capturedImages s)]\<rparr>)"

text \<open>
  \<open>completeCapture\<close> as far as the component state goes: the request is sent with
  \<open>capturedImages.slice(0, 5)\<close> of the closure, here the argument \<open>images\<close>.
\<close>

definition completeCapture :: "snapshot list \<Rightarrow> guidedCapture \<Rightarrow> guidedCapture" where
  "completeCapture images s =
     s\<lparr>isCapturing := True, inFlight := inFlight s + 1,
       submitted := submitted s @ [take 5 images]\<rparr>"

text \<open>The oldest 500 ms callback runs.\<close>

definition timerFires :: "guidedCapture \<Rightarrow> guidedCapture" where
  "timerFires s =
     (case timers s of
        [] \<Rightarrow> s
      | (angle0, images0) # rest \<Rightarrow>
          let s' = s\<lparr>timers := rest, isCapturing := False\<rparr>
          in if angle0 < length angleNames - 1
             then s'\<lparr>currentAngle := currentAngle s' + 1\<rparr>
             else completeCapture images0 s')"

text \<open>A registration request returns or fails: the \<open>finally\<close> block of \<open>completeCapture\<close>.\<close>

definition requestSettles :: "guidedCapture \<Rightarrow> guidedCapture" where
  "requestSettles s =
     (if inFlight s = 0 then s else s\<lparr>inFlight := inFlight s - 1, isCapturing := False\<rparr>)"

definition recapture :: "guidedCapture \<Rightarrow> guidedCapture" where
  "recapture s = s\<lparr>g_capturedImages := [], currentAngle := 0\<rparr>"

text \<open>
  The events of the component. The capture button is disabled while \<open>isCapturing\<close> or when five
  images are stored; the Recapture and Register buttons are rendered only when five images
  are stored, and Register is disabled while \<open>isCapturing\<close>.
\<close>

datatype guidedEvent =
    Capture imageData nat nat
  | TimerFires
  | RequestSettles
  | Recapture
  | Register

fun g_step :: "guidedEvent \<Rightarrow> guidedCapture \<Rightarrow> guidedCapture" where
  "g_step (Capture frame img now) s =
     (if isCapturing s \<or> length (g_capturedImages s) \<ge> 5 then s
      else g_captureImage frame img now s)"
| "g_step TimerFires s = timerFires s"
| "g_step RequestSettles s = requestSettles s"
| "g_step Recapture s = (if length (g_capturedImages s) \<ge> 5 then recapture s else s)"
| "g_step Register s =
     (if length (g_capturedImages s) \<ge> 5 \<and> \<not> isCapturing s
      then completeCapture (g_capturedImages s) s else s)"

definition g_run :: "guidedEvent list \<Rightarrow> guidedCapture \<Rightarrow> guidedCapture" where
  "g_run es s = fold g_step es s"

text \<open>The view shows the completed state when \<open>capturedImages.length < 5\<close> fails.\<close>

definition g_complete :: "guidedCapture \<Rightarrow> bool" where
  "g_complete s = (length (g_capturedImages s) \<ge> 5)"

section \<open>AdvancedBiometricCapture.jsx: the server-driven capture\<close>

text \<open>
  Of the component state the model keeps the camera stream, the session, the processing
  flag, the completion flag, the captured angles of the last progress report and the
  message list, which is what the user sees of an error. A message is its text and its
  type.
\<close>

record advancedCapture =
  a_stream :: "nat option"
  sessionId :: "string option"
  required_angles :: "string list"
  captured_angles :: "string list"
  isProcessing :: bool
  isComplete :: bool
  messages :: "(string \<times> string) list"

definition addMessage :: "string \<Rightarrow> string \<Rightarrow> advancedCapture \<Rightarrow> advancedCapture" where
  "addMessage txt type s = s\<lparr>messages := (txt, type) # take 4 (messages s)\<rparr>"

text \<open>
  The ways \<open>startCamera\<close> can go: the browser has no \<open>getUserMedia\<close>; the request is
  rejected with an exception (name and message); the stream arrives but the video never
  loads its metadata, so that the function never continues; or the stream arrives and the
  session request is answered (\<open>Started\<close> with the session id and the required angles,
  \<open>Refused\<close> with the server's message if it sent one, \<open>HttpError\<close> with the status as
  text, \<open>FetchFailed\<close> with the message of the exception). A refusal without a message, or
  with the empty one, is reported as \<open>data.message || 'Failed to start session'\<close>.
\<close>

datatype sessionStart =
    Started string "string list"
  | Refused "string option"
  | HttpError string
  | FetchFailed string

datatype cameraStart =
    Unsupported
  | CameraRejected string string
  | Stalled nat
  | Acquired nat sessionStart

text \<open>The \<open>catch\<close> block of \<open>startCamera\<close>: the message shown for an exception.\<close>

definition startCameraError :: "string \<Rightarrow> string \<Rightarrow> string" where
  "startCameraError name message =
     (if name = ''NotAllowedError''
      then ''Camera permission denied. Please allow camera access and refresh.''
      else if name = ''NotFoundError''
      then ''No camera found. Please connect a camera and try again.''
      else if name = ''NotReadableError''
      then ''Camera is being used by another application.''
      else ''Error: '' @ message)"

definition a_startCamera :: "cameraStart \<Rightarrow> advancedCapture \<Rightarrow> advancedCapture" where
  "a_startCamera outcome s =
     (case outcome of
        Unsupported \<Rightarrow>
          addMessage (startCameraError ''Error'' ''Camera not supported in this browser'') ''error'' s
      | CameraRejected name message \<Rightarrow> addMessage (startCameraError name message) ''error'' s
      | Stalled mediaStream \<Rightarrow> s\<lparr>a_stream := Some mediaStream\<rparr>
      | Acquired mediaStream session \<Rightarrow>
          let s' = addMessage ''Camera connected successfully!'' ''success''
                     (s\<lparr>a_stream := Some mediaStream\<rparr>)
          in (case session of
                Started sid required \<Rightarrow>
                  addMessage ''AI biometric session started. Position your face clearly.'' ''info''
                    (s'\<lparr>sessionId := Some sid, required_angles := required\<rparr>)
              | Refused m \<Rightarrow>
                  addMessage
                    (startCameraError ''Error''
                       (if m = None \<or> m = Some '''' then ''Failed to start session'' else the m))
                    ''error'' s'
              | HttpError status \<Rightarrow>
                  addMessage (startCameraError ''Error'' (''Server error: '' @ status)) ''error'' s'
              | FetchFailed m \<Rightarrow> addMessage (startCameraError ''TypeError'' m) ''error'' s'))"

text \<open>
  The answer to one \<open>process-frame\<close> request: the request throws, the status is not ok, or
  a result object arrives. Of the result the model keeps the fields that reach the kept
  state.
\<close>

record frameResult =
  success :: bool
  face_detected :: bool
  progress :: "(string list \<times> string list) option"
  auto_captured :: bool
  captured_angle :: string
  session_complete :: bool
  r_message :: "string option"

datatype frameResponse = Throws | NotOk | Result frameResult

text \<open>
  \<open>processFrame\<close>. The interval callback that calls it is created by an effect, so the
  \<open>isProcessing\<close> and \<open>sessionId\<close> it reads are those of the render in which the effect
  ran: the first two arguments. Then \<open>video.readyState\<close>, the video dimensions, the
  server's answer and the \<open>Math.random()\<close> draw that thins the no-face messages. The
  message for an automatic capture starts with a check mark (U+2713), here its three bytes
  in UTF-8; an empty session id and an empty server message are falsy.
\<close>

definition checkMark :: string where
  "checkMark = [CHR 0xE2, CHR 0x9C, CHR 0x93]"

definition processFrame ::
  "bool \<Rightarrow> string option \<Rightarrow> nat \<Rightarrow> nat \<Rightarrow> nat \<Rightarrow> frameResponse \<Rightarrow> real \<Rightarrow>
     advancedCapture \<Rightarrow> advancedCapture" where
  "processFrame isProcessing0 sessionId0 readyState videoWidth videoHeight response random s =
     (if isProcessing0 \<or> sessionId0 = None \<or> sessionId0 = Some '''' then s
      else if readyState \<noteq> 4 then s
      else if videoWidth = 0 \<or> videoHeight = 0 then s\<lparr>isProcessing := False\<rparr>
      else
        (case response of
           Throws \<Rightarrow> s\<lparr>isProcessing := False\<rparr>
         | NotOk \<Rightarrow> s\<lparr>isProcessing := False\<rparr>
         | Result r \<Rightarrow>
             if \<not> success r then s\<lparr>isProcessing := False\<rparr>
             else
               let s1 = (case progress r of
                           None \<Rightarrow> s
                         | Some (captured, required) \<Rightarrow>
                             s\<lparr>captured_angles := captured, required_angles := required\<rparr>);
                   s2 = (if auto_captured r
                         then addMessage
                                (checkMark @ '' '' @ captured_angle r @ '' angle captured!'')
                                ''success'' s1
                         else s1);
                   s3 = (if session_complete r
                         then addMessage ''All angles captured! Processing attendance...'' ''success''
                                (s2\<lparr>isComplete := True\<rparr>)
                         else s2);
                   s4 = (case r_message r of
                           Some m \<Rightarrow>
                             if m \<noteq> '''' \<and> \<not> face_detected r \<and> random < 0.1
                             then addMessage m ''info'' s3 else s3
                         | None \<Rightarrow> s3)
               in s4\<lparr>isProcessing := False\<rparr>))"

section \<open>RealTimeFaceDetection.jsx: the guard of captureSmartphoneLikeFaces\<close>

text \<open>\<open>a < b\<close> on numbers: false when either side is \<open>NaN\<close>.\<close>

fun js_lt :: "jsnum \<Rightarrow> jsnum \<Rightarrow> bool" where
  "js_lt (Num a) (Num b) = (a < b)"
| "js_lt _ _ = False"

record detection =
  faceDetected :: bool
  faceQuality :: jsnum
  detectionConfidence :: jsnum

definition captureAngles :: "string list" where
  "captureAngles =
     [''center'', ''slight_left'', ''slight_right'', ''slight_up'', ''slight_down'',
      ''center_close'', ''center_far'']"

text \<open>
  \<open>captureSmartphoneLikeFaces\<close>: the early return gives no capture; otherwise one capture per
  entry of \<open>captureAngles\<close>, each with the quality and confidence read when the function
  was called. A capture is its angle, quality and confidence here.
\<close>

definition captureSmartphoneLikeFaces :: "detection \<Rightarrow> (string \<times> jsnum \<times> jsnum) list" where
  "captureSmartphoneLikeFaces s =
     (if \<not> faceDetected s \<or> js_lt (faceQuality s) (Num 40)
           \<or> js_lt (detectionConfidence s) (Num 0.7)
      then []
      else map (\<lambda>a. (a, faceQuality s, detectionConfidence s)) captureAngles)"

definition accepted :: "detection \<Rightarrow> bool" where
  "accepted s = (captureSmartphoneLikeFaces s \<noteq> [])"

text \<open>
  The acceptance policy in the specification's words, with its two thresholds as
  configuration: confidence at least \<open>minConfidence\<close> and quality at least \<open>minQuality\<close>.
\<close>

definition acceptancePolicy :: "real \<Rightarrow> real \<Rightarrow> real \<Rightarrow> real \<Rightarrow> bool" where
  "acceptancePolicy minConfidence minQuality confidence quality =
     (minConfidence \<le> confidence \<and> minQuality \<le> quality)"

section \<open>Predicates on events and example sessions\<close>

text \<open>Stored and pending captures carry labels of \<open>angles\<close>.\<close>

definition labelled :: "biometricCapture \<Rightarrow> bool" where
  "labelled s =
     (fst ` set (capturedImages s) \<subseteq> set angles \<and> set (toBlobPending s) \<subseteq> set angles)"

text \<open>
  Events that do not start the camera again: all but a device request that is granted, which
  is how a call of \<open>startCamera\<close> or \<open>retakeAll\<close> gets the camera running.
\<close>

definition noRestart :: "event \<Rightarrow> bool" where
  "noRestart e = (case e of GetUserMediaSettles (Resolved _) \<Rightarrow> False | _ \<Rightarrow> True)"

text \<open>
  Sessions of the manual capture. The camera starts and the video plays; the user clicks
  the tile of angle \<open>a\<close> and the encoder delivers the capture; the dictionary has changed,
  so the effect cleanup stops the camera, and the user starts it again
  (\<open>restartedAfter\<close>). Then the user clicks the tile of angle \<open>b\<close>
  (\<open>captureRequested\<close>), and that capture is delivered too (\<open>twoCaptures\<close>).
\<close>

definition restartedAfter :: "angle \<Rightarrow> event list" where
  "restartedAfter a =
     [StartCamera, GetUserMediaSettles (Resolved 1), VideoPlaying,
      CaptureImage a 640 480, ToBlobCallback (Some 10) 20 1000, EffectCleanup (Some 1),
      StartCamera, GetUserMediaSettles (Resolved 2), VideoPlaying]"

definition captureRequested :: "angle \<Rightarrow> angle \<Rightarrow> event list" where
  "captureRequested a b = restartedAfter a @ [CaptureImage b 640 480]"

definition twoCaptures :: "angle \<Rightarrow> angle \<Rightarrow> event list" where
  "twoCaptures a b =
     captureRequested a b @ [ToBlobCallback (Some 11) 21 2000, EffectCleanup (Some 2)]"

text \<open>
  A session in which the user clicks a tile and stops the camera before the browser has
  encoded the frame.
\<close>

definition captureThenStop :: "event list" where
  "captureThenStop =
     [StartCamera, GetUserMediaSettles (Resolved 1), VideoPlaying,
      CaptureImage ''Center'' 640 480, StopCamera]"

text \<open>A state of the manual capture in which the camera is running and ready.\<close>

definition cameraReady :: biometricCapture where
  "cameraReady = run [StartCamera, GetUserMediaSettles (Resolved 1), VideoPlaying] initialState"

text \<open>
  What holds of the guided capture between events: the stored captures are those of the
  first angles, in order; with no timer pending, \<open>currentAngle\<close> is the number of stored
  captures (capped at the last index); a pending timer is the only one, belongs to the
  last capture taken, and keeps the capture button disabled, as does a request in flight.
\<close>

definition guidedInv :: "guidedCapture \<Rightarrow> bool" where
  "guidedInv s =
     (map sn_angle (g_capturedImages s) = map angleLabel [0 ..< length (g_capturedImages s)] \<and>
      length (g_capturedImages s) \<le> 5 \<and>
      (case timers s of
         [] \<Rightarrow> currentAngle s = min (length (g_capturedImages s)) 4
       | [(angle0, images0)] \<Rightarrow>
           isCapturing s \<and> inFlight s = 0 \<and> angle0 \<le> 4 \<and>
           (length (g_capturedImages s) = angle0 + 1 \<and> currentAngle s = angle0 \<or>
            angle0 = 4 \<and> g_capturedImages s = [] \<and> currentAngle s = 0)
       | _ \<Rightarrow> False) \<and>
      (inFlight s = 0 \<or> inFlight s = 1 \<and> isCapturing s))"

text \<open>A frame with pixels; one capture of it followed by its timer; and the session in
  which the user captures \<open>n\<close> angles in turn.\<close>

definition grayFrame :: imageData where
  "grayFrame = \<lparr>data = [100, 100, 100, 255], width = 1, height = 1\<rparr>"

definition captureAndWait :: "guidedEvent list" where
  "captureAndWait = [Capture grayFrame 7 1000, TimerFires]"

definition guidedSession :: "nat \<Rightarrow> guidedEvent list" where
  "guidedSession n = concat (replicate n captureAndWait)"

text \<open>The server-driven capture when it is mounted, and after the camera and the session
  have started.\<close>

definition advancedInitial :: advancedCapture where
  "advancedInitial =
     \<lparr>a_stream = None, sessionId = None, required_angles = [], captured_angles = [],
      isProcessing = False, isComplete = False, messages = []\<rparr>"

definition sessionRunning :: advancedCapture where
  "sessionRunning =
     a_startCamera (Acquired 1 (Started ''session_1'' [''frontal'', ''left_profile'']))
       advancedInitial"

text \<open>A uniform gray frame of three by three pixels.\<close>

definition gray3 :: imageData where
  "gray3 =
     \<lparr>data =
        [100, 100, 100, 255, 100, 100, 100, 255, 100, 100, 100, 255,
         100, 100, 100, 255, 100, 100, 100, 255, 100, 100, 100, 255,
         100, 100, 100, 255, 100, 100, 100, 255, 100, 100, 100, 255],
      width = 3, height = 3\<rparr>"

section \<open>Properties of compareFaceEncodings\<close>

lemma sumSquares_acc: "sumSquares xs ys a = a + sumSquares xs ys 0"
proof (induction xs arbitrary: ys a)
  case Nil
  then show ?case by simp
next
  case (Cons x xs)
  show ?case
  proof (cases ys)
    case Nil
    then show ?thesis by simp
  next
    case (Cons y ys')
    have "sumSquares xs ys' (a + (x - y)\<^sup>2) = a + (x - y)\<^sup>2 + sumSquares xs ys' 0"
      by (rule Cons.IH)
    moreover have "sumSquares xs ys' (0 + (x - y)\<^sup>2) = 0 + (x - y)\<^sup>2 + sumSquares xs ys' 0"
      by (rule Cons.IH)
    ultimately show ?thesis using Cons by simp
  qed
qed

lemma sumSquares_nonneg: "0 \<le> a \<Longrightarrow> 0 \<le> sumSquares xs ys a"
  by (induction xs ys a rule: sumSquares.induct) simp_all

lemma sumSquares_sym: "sumSquares xs ys a = sumSquares ys xs a"
  by (induction xs ys a rule: sumSquares.induct) (simp_all add: power2_commute)

lemma compareFaceEncodings_unequal:
  "length e1 \<noteq> length e2 \<Longrightarrow>
     compareFaceEncodings e1 e2 t = \<lparr>match = False, similarity = Num 0, distance = None\<rparr>"
  by (simp add: compareFaceEncodings_def)

lemma compareFaceEncodings_sym:
  "similarity (compareFaceEncodings e1 e2 t) = similarity (compareFaceEncodings e2 e1 t) \<and>
   match (compareFaceEncodings e1 e2 t) = match (compareFaceEncodings e2 e1 t)"
  by (simp add: compareFaceEncodings_def sumSquares_sym Let_def)

lemma compareFaceEncodings_nonempty:
  assumes "length e1 = length e2" and "e1 \<noteq> []"
  shows "\<exists>s. similarity (compareFaceEncodings e1 e2 t) = Num s \<and> 0 \<le> s \<and> s \<le> 1 \<and>
             match (compareFaceEncodings e1 e2 t) = (t \<le> s)"
proof -
  have "0 \<le> sqrt (sumSquares e1 e2 0) / sqrt (real (length e1))"
    by (simp add: sumSquares_nonneg)
  moreover from assms have "e2 \<noteq> []" by auto
  ultimately show ?thesis
    using assms by (simp add: compareFaceEncodings_def Let_def)
qed

text \<open>
  Claim C10. For encodings of unequal length the result is no match with similarity 0,
  and the result is symmetric in the two encodings; for equal-length encodings that are not
  empty the similarity lies in \<open>[0, 1]\<close> and the match flag is \<open>similarity >= threshold\<close>
  (the three lemmas above). For two empty encodings, which have equal length, the
  function divides \<open>0\<close> by \<open>Math.sqrt(0)\<close>: the similarity it returns is \<open>NaN\<close>, not a
  number of \<open>[0, 1]\<close>, whatever the threshold.
\<close>

theorem compareFaceEncodings_empty:
  "compareFaceEncodings [] [] threshold =
     \<lparr>match = False, similarity = NaN, distance = Some 0\<rparr>"
  by (simp add: compareFaceEncodings_def)

section \<open>Properties of the quality heuristics and of the capture guard\<close>

text \<open>
  The scores of the uniform gray frame, at any clock reading: the mean luma is the gray
  level, and there is neither contrast nor an edge.
\<close>

lemma gray3_sharpness: "calculateSharpness gray3 = Num 0"
  by (simp add: gray3_def calculateSharpness_def sobelX_def sobelY_def red_def px_def
        upt_rec [of "Suc 0"] upt_rec [of 2])

lemma gray3_brightness: "brightnessLoop (data gray3) 0 (Num 0) 0 = (Num 900, 9)"
  by (simp add: gray3_def brightnessLoop.simps px_def luminance_def)

lemma gray3_scores:
  "extractBiometricData now gray3 =
     \<lparr>bd_brightness = Num 100, bd_contrast = Num 0, bd_sharpness = Num 0, bd_timestamp = now\<rparr>"
proof -
  have "contrastLoop (data gray3) (Num 100) 0 (Num 0) = Num 0"
    by (simp add: gray3_def contrastLoop.simps px_def luminance_def)
  then show ?thesis
    by (simp add: extractBiometricData_def gray3_brightness gray3_sharpness)
qed

text \<open>
  Claim C5. The brightness, contrast and sharpness that \<open>extractBiometricData\<close> returns for
  a pixel buffer do not depend on when the function runs: two runs on the same buffer, at two
  clock readings, return the same three scores (and the sharpness is that of
  \<open>calculateSharpness\<close> on the buffer). Likewise the scores of \<open>calculateImageQuality\<close> reach
  \<open>detectLiveness\<close> unchanged by its random draws: two runs on the same buffer with different
  draws agree on \<open>textureAnalysis\<close> and \<open>overall\<close>. Equal results include the case that both are
  \<open>NaN\<close>.
\<close>

theorem scores_deterministic:
  "bd_brightness (extractBiometricData now img) = bd_brightness (extractBiometricData now' img) \<and>
   bd_contrast (extractBiometricData now img) = bd_contrast (extractBiometricData now' img) \<and>
   bd_sharpness (extractBiometricData now img) = bd_sharpness (extractBiometricData now' img) \<and>
   bd_sharpness (extractBiometricData now img) = calculateSharpness img \<and>
   textureAnalysis (detectLiveness r1 r2 r3 img) = textureAnalysis (detectLiveness r1' r2' r3' img) \<and>
   textureAnalysis (detectLiveness r1 r2 r3 img) = q_sharpness (calculateImageQuality img) \<and>
   l_overall (detectLiveness r1 r2 r3 img) = l_overall (detectLiveness r1' r2' r3' img)"
  by (simp add: extractBiometricData_def detectLiveness_def Let_def split: prod.splits)

text \<open>
  Claim C6, as stated, fails. With the thresholds overridden to \<open>minConfidence = 0.5\<close> and
  \<open>minQuality = 40\<close>, the policy of the specification accepts a detected face of confidence
  0.6 and quality 60 (what the backup detector reports); \<open>captureSmartphoneLikeFaces\<close> has
  no such options and returns without a capture.
\<close>

theorem gate_not_configurable:
  "accepted \<lparr>faceDetected = True, faceQuality = Num 60, detectionConfidence = Num 0.6\<rparr>
     \<noteq> acceptancePolicy 0.5 40 0.6 60"
  by (simp add: accepted_def captureSmartphoneLikeFaces_def acceptancePolicy_def)

text \<open>
  Claim C6, amended. The guided flow accepts a frame if and only if a face is detected, the
  confidence is at least 0.7 and the quality at least 40, both thresholds being constants
  of the code; the manual flow has no quality or confidence input: \<open>captureImage\<close> accepts
  the frame (hands it to the encoder) if and only if the camera is running and ready and the
  video has non-zero dimensions.
\<close>

theorem gate_fixed_thresholds:
  "(accepted \<lparr>faceDetected = d, faceQuality = Num q, detectionConfidence = Num c\<rparr>
      \<longleftrightarrow> d \<and> acceptancePolicy 0.7 40 c q) \<and>
   (toBlobPending (captureImage a w h s) = toBlobPending s @ [a]
      \<longleftrightarrow> stream s \<noteq> None \<and> isVideoReady s \<and> w \<noteq> 0 \<and> h \<noteq> 0)"
  by (auto simp: accepted_def captureSmartphoneLikeFaces_def acceptancePolicy_def
        captureAngles_def captureImage_def)

theorem gate_fixed_thresholds_witness:
  "accepted \<lparr>faceDetected = True, faceQuality = Num 40, detectionConfidence = Num 0.7\<rparr> \<and>
   \<not> accepted \<lparr>faceDetected = True, faceQuality = Num 60, detectionConfidence = Num 0.6\<rparr> \<and>
   toBlobPending (captureImage ''Center'' 640 480 cameraReady) = [''Center'']"
  using gate_fixed_thresholds [of True 40 "0.7" "''Center''" 640 480 cameraReady]
        gate_fixed_thresholds [of True 60 "0.6" "''Center''" 640 480 cameraReady]
  by (simp add: acceptancePolicy_def cameraReady_def run_def startCameraCalled_def
        getUserMediaSettled_def videoPlaying_def initialState_def)

section \<open>Properties of the manual capture (BiometricCapture.jsx)\<close>

lemma length_angles: "length angles = 5"
  by (simp add: angles_def)

lemma set_delete_subset: "set (AList.delete k al) \<subseteq> set al"
  by (auto simp: AList.delete_eq)

lemmas handler_defs =
  startCamera_def startCameraCalled_def getUserMediaSettled_def retakeAllCalled_def
  cameraTimeout_def videoPlaying_def videoPlayFailed_def stopCamera_def
  effectCleanup_def captureImage_def toBlobCallback_def autoStop_def removeImage_def
  retakeAll_def registerBiometric_def

text \<open>No event gives an angle a second capture: the keys of the dictionary stay distinct.\<close>

lemma step_distinct:
  "distinct (map fst (capturedImages s)) \<Longrightarrow> distinct (map fst (capturedImages (step e s)))"
  by (cases e)
     (auto simp: handler_defs Let_def distinct_update distinct_delete
        split: getUserMedia.splits list.splits option.splits)

lemma run_distinct:
  "distinct (map fst (capturedImages s)) \<Longrightarrow> distinct (map fst (capturedImages (run es s)))"
  unfolding run_def by (induction es arbitrary: s) (simp_all add: step_distinct)

text \<open>Stored and pending captures carry labels of \<open>angles\<close>, as long as the tiles are the
  only source of capture requests.\<close>

lemma step_labelled: "fromUI e \<Longrightarrow> labelled s \<Longrightarrow> labelled (step e s)"
  using set_delete_subset [of _ "capturedImages s"]
  by (cases e)
     (auto simp: labelled_def handler_defs Let_def dom_update
        split: getUserMedia.splits list.splits option.splits)

lemma run_labelled: "\<forall>e\<in>set es. fromUI e \<Longrightarrow> labelled s \<Longrightarrow> labelled (run es s)"
  unfolding run_def by (induction es arbitrary: s) (simp_all add: step_labelled)

lemma count_le:
  assumes "distinct (map fst al)" and "fst ` set al \<subseteq> set angles"
  shows "length al \<le> length angles"
proof -
  have "length al = card (set (map fst al))"
    using assms(1) by (metis distinct_card length_map)
  also have "\<dots> \<le> card (set angles)"
    using assms(2) by (simp add: card_mono)
  also have "\<dots> \<le> length angles"
    by (rule card_length)
  finally show ?thesis .
qed

lemma replace_existing:
  assumes "toBlobPending s = a # p" and "a \<in> fst ` set (capturedImages s)"
  shows "map fst (capturedImages (toBlobCallback (Some b) u now s)) = map fst (capturedImages s) \<and>
         map_of (capturedImages (toBlobCallback (Some b) u now s)) a =
           Some \<lparr>blob = b, url = u, timestamp = now\<rparr>"
  using assms by (simp add: toBlobCallback_def Let_def update_keys update_conv')

lemma canRegister_card:
  "distinct (map fst (capturedImages s)) \<Longrightarrow>
     canRegister s \<longleftrightarrow> 2 \<le> card (fst ` set (capturedImages s))"
  by (metis canRegister_def capturedCount_def distinct_card length_map list.set_map)

lemma stored_iff: "k \<in> fst ` set al \<longleftrightarrow> map_of al k \<noteq> None"
  by (simp add: map_of_eq_None_iff)

text \<open>While the camera is stopped and no encoder callback is pending, no event other than a
  restart stores a capture.\<close>

lemma step_stopped:
  assumes "noRestart e" and "stream s = None" and "toBlobPending s = []"
  shows "stream (step e s) = None \<and> toBlobPending (step e s) = [] \<and>
         set (capturedImages (step e s)) \<subseteq> set (capturedImages s)"
  using assms set_delete_subset [of _ "capturedImages s"]
  by (cases e)
     (auto simp: noRestart_def handler_defs Let_def split: option.splits getUserMedia.splits)

lemma run_stopped:
  assumes "\<forall>e\<in>set es. noRestart e" and "stream s = None" and "toBlobPending s = []"
  shows "stream (run es s) = None \<and> toBlobPending (run es s) = [] \<and>
         set (capturedImages (run es s)) \<subseteq> set (capturedImages s)"
  using assms
proof (induction es arbitrary: s)
  case Nil
  then show ?case by (simp add: run_def)
next
  case (Cons e es)
  from Cons.prems have a: "noRestart e" and b: "\<forall>e\<in>set es. noRestart e"
    by simp_all
  note st = step_stopped [OF a Cons.prems(2) Cons.prems(3)]
  from Cons.IH [OF b, of "step e s"] st
  show ?case by (auto simp: run_def)
qed

lemmas session_eval =
  run_def twoCaptures_def captureRequested_def restartedAfter_def captureThenStop_def
  cameraReady_def initialState_def handler_defs

text \<open>
  The 5 s timer after a successful start: its callback reads the \<open>stream\<close> and the
  \<open>cameraError\<close> of the first render, both unset, and reports a timeout although the camera
  is running.
\<close>

lemma timeout_after_success:
  "stream (run [StartCamera, GetUserMediaSettles (Resolved 1), VideoPlaying, CameraTimeout]
             initialState) = Some 1 \<and>
   cameraError (run [StartCamera, GetUserMediaSettles (Resolved 1), VideoPlaying, CameraTimeout]
                  initialState) =
     Some ''Camera timeout. Click Start Camera to try again.''"
  by (simp add: session_eval)

text \<open>
  A timeout reported while the device request is pending is still shown when the request is
  granted afterwards; it goes when the video plays.
\<close>

lemma timeout_survives_grant:
  "cameraError (run [StartCamera, CameraTimeout, GetUserMediaSettles (Resolved 1)] initialState) =
     Some ''Camera timeout. Click Start Camera to try again.'' \<and>
   cameraError (run [StartCamera, CameraTimeout, GetUserMediaSettles (Resolved 1), VideoPlaying]
                  initialState) = None"
  by (simp add: session_eval)

section \<open>Properties of the guided capture (BasicBiometricCapture.jsx)\<close>

lemma angleLabels:
  "map angleLabel [0 ..< 5] =
     [''frontal'', ''left_profile'', ''right_profile'', ''up_angle'', ''down_angle'']"
  by code_simp

lemma angleLabel_simps:
  "angleLabel 0 = ''frontal''"
  "angleLabel (Suc 0) = ''left_profile''"
  "angleLabel (Suc (Suc 0)) = ''right_profile''"
  "angleLabel (Suc (Suc (Suc 0))) = ''up_angle''"
  "angleLabel (Suc (Suc (Suc (Suc 0)))) = ''down_angle''"
  by code_simp+

lemma length_angleNames: "length angleNames = 5"
  by (simp add: angleNames_def)

lemma distinct_labels:
  assumes "n \<le> 5"
  shows "distinct (map angleLabel [0 ..< n])"
proof -
  have "distinct (map angleLabel [0 ..< 5])"
    unfolding angleLabels by simp
  then have "distinct (take n (map angleLabel [0 ..< 5]))"
    by (rule distinct_take)
  moreover have "take n (map angleLabel [0 ..< 5]) = map angleLabel [0 ..< n]"
    using assms by (simp add: take_map min_def)
  ultimately show ?thesis by simp
qed

lemmas guided_defs =
  g_captureImage_def completeCapture_def timerFires_def requestSettles_def recapture_def

text \<open>Every event keeps the invariant; the capture button's guard is what the case of a
  capture rests on.\<close>

lemma g_step_inv:
  assumes inv: "guidedInv s"
  shows "guidedInv (g_step e s)"
proof (cases e)
  case (Capture f i n)
  show ?thesis
  proof (cases "isCapturing s \<or> length (g_capturedImages s) \<ge> 5")
    case True
    with inv Capture show ?thesis by simp
  next
    case False
    with inv have "timers s = []" and "inFlight s = 0"
      and "currentAngle s = length (g_capturedImages s)"
      and "length (g_capturedImages s) < 5"
      and "map sn_angle (g_capturedImages s) = map angleLabel [0 ..< length (g_capturedImages s)]"
      by (auto simp: guidedInv_def split: list.splits prod.splits)
    with False Capture show ?thesis
      by (auto simp: guidedInv_def g_captureImage_def Let_def length_angleNames)
  qed
next
  case TimerFires
  with inv show ?thesis
    by (auto simp: guidedInv_def guided_defs Let_def length_angleNames
          split: list.splits prod.splits)
next
  case RequestSettles
  with inv show ?thesis
    by (auto simp: guidedInv_def guided_defs split: list.splits prod.splits)
next
  case Recapture
  with inv show ?thesis
    by (auto simp: guidedInv_def guided_defs split: list.splits prod.splits)
next
  case Register
  with inv show ?thesis
    by (auto simp: guidedInv_def guided_defs split: list.splits prod.splits)
qed

lemma g_run_inv: "guidedInv s \<Longrightarrow> guidedInv (g_run es s)"
  unfolding g_run_def by (induction es arbitrary: s) (simp_all add: g_step_inv)

lemma guidedInv_initial: "guidedInv guidedInitial"
  by (simp add: guidedInv_def guidedInitial_def)

lemma guidedInv_distinct:
  "guidedInv s \<Longrightarrow>
     distinct (map sn_angle (g_capturedImages s)) \<and>
     length (g_capturedImages s) \<le> length angleNames"
  by (simp add: guidedInv_def distinct_labels length_angleNames)

lemma g_step_length: "length (g_capturedImages (g_step e s)) \<le> length (g_capturedImages s) + 1"
  by (cases e) (auto simp: guided_defs Let_def split: list.splits prod.splits)

lemma guidedSession_numerals:
  "guidedSession 2 = captureAndWait @ captureAndWait"
  "guidedSession 4 = captureAndWait @ captureAndWait @ captureAndWait @ captureAndWait"
  "guidedSession 5 =
     captureAndWait @ captureAndWait @ captureAndWait @ captureAndWait @ captureAndWait"
  by (simp_all add: guidedSession_def eval_nat_numeral)

lemmas guided_eval =
  g_run_def guidedSession_numerals captureAndWait_def guidedInitial_def guided_defs
  grayFrame_def angleNames_def angleLabel_simps Let_def

text \<open>
  The registration that the timer of the fifth capture starts by itself is sent by the
  \<open>completeCapture\<close> of the render before that capture: it carries the first four captures,
  while five are stored.
\<close>

lemma autosubmit_sends_four:
  "map sn_angle (g_capturedImages (g_run (guidedSession 5) guidedInitial)) =
     [''frontal'', ''left_profile'', ''right_profile'', ''up_angle'', ''down_angle''] \<and>
   map (map sn_angle) (submitted (g_run (guidedSession 5) guidedInitial)) =
     [[''frontal'', ''left_profile'', ''right_profile'', ''up_angle'']]"
  by (simp add: guided_eval)

section \<open>The capture session: one capture per angle, completion, registration\<close>

text \<open>
  Claim C1. In the manual capture, after every sequence of events whose capture requests
  come from the tiles, the dictionary holds at most one capture per angle label and at most
  as many captures as there are required angles; and when the encoder delivers a capture for
  an angle that already has one, the keys stay as they are and the angle's capture is the new
  one. In the guided capture, after every sequence of events, the stored captures have
  pairwise different angle labels and are at most as many as the required angles.
\<close>

theorem one_capture_per_angle:
  "((\<forall>e\<in>set es. fromUI e) \<longrightarrow>
      distinct (map fst (capturedImages (run es initialState))) \<and>
      capturedCount (run es initialState) \<le> length angles) \<and>
   (toBlobPending s = a # p \<and> a \<in> fst ` set (capturedImages s) \<longrightarrow>
      map fst (capturedImages (toBlobCallback (Some b) u now s)) = map fst (capturedImages s) \<and>
      map_of (capturedImages (toBlobCallback (Some b) u now s)) a =
        Some \<lparr>blob = b, url = u, timestamp = now\<rparr>) \<and>
   distinct (map sn_angle (g_capturedImages (g_run ges guidedInitial))) \<and>
   length (g_capturedImages (g_run ges guidedInitial)) \<le> length angleNames"
proof -
  have d: "distinct (map fst (capturedImages (run es initialState)))"
    by (rule run_distinct) (simp add: initialState_def)
  have "capturedCount (run es initialState) \<le> length angles" if "\<forall>e\<in>set es. fromUI e"
  proof -
    have "labelled initialState"
      by (simp add: labelled_def initialState_def)
    with that have "labelled (run es initialState)"
      by (rule run_labelled)
    with d show ?thesis
      unfolding capturedCount_def labelled_def by (simp add: count_le)
  qed
  moreover have "guidedInv (g_run ges guidedInitial)"
    using guidedInv_initial by (rule g_run_inv)
  ultimately show ?thesis
    using d replace_existing [of s a p b u now] guidedInv_distinct by blast
qed

theorem one_capture_per_angle_witness:
  "capturedImages (run (twoCaptures ''Center'' ''Center'') initialState) =
     [(''Center'', \<lparr>blob = 11, url = 21, timestamp = 2000\<rparr>)] \<and>
   capturedCount (run (twoCaptures ''Center'' ''Center'') initialState) \<le> length angles \<and>
   toBlobPending (run (captureRequested ''Center'' ''Center'') initialState) = [''Center''] \<and>
   map fst (capturedImages (run (captureRequested ''Center'' ''Center'') initialState)) =
     [''Center''] \<and>
   map sn_angle (g_capturedImages (g_run (guidedSession 2) guidedInitial)) =
     [''frontal'', ''left_profile'']"
  using one_capture_per_angle [of "twoCaptures ''Center'' ''Center''"
          "run (captureRequested ''Center'' ''Center'') initialState" "''Center''" "[]"
          11 21 2000 "guidedSession 2"]
  by (simp add: session_eval angles_def capturedCount_def guided_eval)

text \<open>
  Claim C2. The register-enabling condition of the manual capture (minimum 2) holds if and
  only if at least two distinct angles are stored, and the completed view of the guided
  capture (minimum 5) is shown if and only if at least five distinct angles are stored, in
  every state the components can reach. In the guided capture an event completes the
  session only from a state with exactly four distinct stored angles: completion comes with
  the fifth distinct capture and not before.
\<close>

theorem complete_iff_minimum:
  "(canRegister (run es initialState) \<longleftrightarrow>
      2 \<le> card (fst ` set (capturedImages (run es initialState)))) \<and>
   (g_complete (g_run ges guidedInitial) \<longleftrightarrow>
      5 \<le> card (sn_angle ` set (g_capturedImages (g_run ges guidedInitial)))) \<and>
   (\<not> g_complete (g_run ges guidedInitial) \<and> g_complete (g_step e (g_run ges guidedInitial)) \<longrightarrow>
      card (sn_angle ` set (g_capturedImages (g_run ges guidedInitial))) = 4)"
proof -
  let ?g = "g_run ges guidedInitial"
  have "distinct (map fst (capturedImages (run es initialState)))"
    by (rule run_distinct) (simp add: initialState_def)
  then have 1: "canRegister (run es initialState) \<longleftrightarrow>
      2 \<le> card (fst ` set (capturedImages (run es initialState)))"
    by (rule canRegister_card)
  have "guidedInv ?g"
    using guidedInv_initial by (rule g_run_inv)
  then have "distinct (map sn_angle (g_capturedImages ?g))"
    using guidedInv_distinct by blast
  then have c: "card (sn_angle ` set (g_capturedImages ?g)) = length (g_capturedImages ?g)"
    by (metis distinct_card length_map list.set_map)
  have 2: "g_complete ?g \<longleftrightarrow> 5 \<le> card (sn_angle ` set (g_capturedImages ?g))"
    by (simp add: g_complete_def c)
  have 3: "card (sn_angle ` set (g_capturedImages ?g)) = 4"
    if "\<not> g_complete ?g" and "g_complete (g_step e ?g)"
    using that g_step_length [of e ?g] by (simp add: g_complete_def c)
  from 1 2 3 show ?thesis by blast
qed

theorem complete_iff_minimum_witness:
  "\<not> g_complete (g_run (guidedSession 4) guidedInitial) \<and>
   g_complete (g_step (Capture grayFrame 7 1000) (g_run (guidedSession 4) guidedInitial)) \<and>
   card (sn_angle ` set (g_capturedImages (g_run (guidedSession 4) guidedInitial))) = 4 \<and>
   canRegister (run (twoCaptures ''Center'' ''Left'') initialState)"
  using complete_iff_minimum [of "twoCaptures ''Center'' ''Left''" "guidedSession 4"
          "Capture grayFrame 7 1000"]
  by (simp add: guided_eval g_complete_def session_eval canRegister_def capturedCount_def)

text \<open>
  Claim C3, as stated, fails. With the Left and the Right angle stored and an employee id
  given, the completion predicate holds, yet \<open>registerBiometric\<close> hands nothing to
  \<open>onCapture\<close>: it reports that the Center image is missing.
\<close>

theorem complete_without_center:
  "canRegister (run (twoCaptures ''Left'' ''Right'') initialState) \<and>
   snd (registerBiometric (Some ''EMP_001'') (run (twoCaptures ''Left'' ''Right'') initialState))
     = None \<and>
   cameraError
     (fst (registerBiometric (Some ''EMP_001'') (run (twoCaptures ''Left'' ''Right'') initialState)))
     = Some ''Center image not found''"
  by (simp add: session_eval canRegister_def capturedCount_def)

text \<open>
  Claim C3, amended. \<open>registerBiometric\<close> emits a registration if and only if the completion
  predicate holds, an employee id is given and the Center angle is stored; the registration
  then names exactly the stored angles, in order, with their count, the employee id, and the
  Center image as the face image. In every other case nothing is emitted and an error is
  shown; when the completion predicate fails, that error is the one asking for at least two
  captures, and nothing else changes.
\<close>

theorem registerBiometric_policy:
  "(snd (registerBiometric employeeId s) \<noteq> None \<longleftrightarrow>
      canRegister s \<and> employeeId \<noteq> None \<and> employeeId \<noteq> Some '''' \<and>
      ''Center'' \<in> fst ` set (capturedImages s)) \<and>
   (\<forall>p. snd (registerBiometric employeeId s) = Some p \<longrightarrow>
      angles_registered p = map fst (capturedImages s) \<and>
      total_angles p = capturedCount s \<and>
      Some (employee_id p) = employeeId \<and>
      map_option blob (map_of (capturedImages s) ''Center'') = Some (face_image p)) \<and>
   (snd (registerBiometric employeeId s) = None \<longrightarrow>
      cameraError (fst (registerBiometric employeeId s)) \<noteq> None) \<and>
   (\<not> canRegister s \<longrightarrow>
      registerBiometric employeeId s =
        (s\<lparr>cameraError := Some ''Need at least 2 captured images and valid employee ID''\<rparr>,
         None))"
  by (auto simp: registerBiometric_def canRegister_def capturedCount_def Let_def stored_iff
        split: option.splits)

theorem registerBiometric_policy_witness:
  "snd (registerBiometric (Some ''EMP_001'') (run (twoCaptures ''Center'' ''Left'') initialState)) =
     Some \<lparr>face_image = 10, employee_id = ''EMP_001'',
           angles_registered = [''Center'', ''Left''], total_angles = 2, qualityScore = 95,
           totalCaptures = 2, livenessScore = 98, antispoofingScore = 96\<rparr> \<and>
   \<not> canRegister cameraReady \<and>
   registerBiometric (Some ''EMP_001'') cameraReady =
     (cameraReady\<lparr>cameraError := Some ''Need at least 2 captured images and valid employee ID''\<rparr>,
      None)"
  using registerBiometric_policy [of "Some ''EMP_001''" "run (twoCaptures ''Center'' ''Left'') initialState"]
        registerBiometric_policy [of "Some ''EMP_001''" cameraReady]
  by (simp add: session_eval canRegister_def capturedCount_def)

text \<open>
  Claim C4. \<open>removeImage(a)\<close> leaves angle \<open>a\<close> without a capture and the capture of every
  other angle as it was; \<open>retakeAll()\<close> leaves the dictionary empty.
\<close>

theorem removeImage_retakeAll:
  "map_of (capturedImages (removeImage a s)) a = None \<and>
   (\<forall>b. b \<noteq> a \<longrightarrow>
      map_of (capturedImages (removeImage a s)) b = map_of (capturedImages s) b) \<and>
   capturedImages (retakeAll outcome s) = []"
  by (simp add: removeImage_def retakeAll_def startCamera_def startCameraCalled_def
        getUserMediaSettled_def delete_conv' split: getUserMedia.splits)

theorem removeImage_retakeAll_witness:
  "map_of (capturedImages (removeImage ''Left'' (run (twoCaptures ''Center'' ''Left'') initialState)))
     ''Left'' = None \<and>
   map_of (capturedImages (removeImage ''Left'' (run (twoCaptures ''Center'' ''Left'') initialState)))
     ''Center'' = Some \<lparr>blob = 10, url = 20, timestamp = 1000\<rparr> \<and>
   capturedImages (retakeAll (Resolved 2) (run (twoCaptures ''Center'' ''Left'') initialState)) = []"
  using removeImage_retakeAll [of "''Left''" "run (twoCaptures ''Center'' ''Left'') initialState"
          "Resolved 2"]
  by (simp add: session_eval)

section \<open>Stopping and starting the camera, invalid frames\<close>

text \<open>
  Claim C7, as stated, fails. The user clicks the Center tile and stops the camera before the
  browser has encoded the frame: the camera is stopped and nothing is stored; then the
  encoder's callback runs and stores the Center capture.
\<close>

theorem capture_added_after_stop:
  "stream (run captureThenStop initialState) = None \<and>
   capturedImages (run captureThenStop initialState) = [] \<and>
   capturedImages (run (captureThenStop @ [ToBlobCallback (Some 7) 8 100]) initialState) =
     [(''Center'', \<lparr>blob = 7, url = 8, timestamp = 100\<rparr>)]"
  by (simp add: session_eval)

text \<open>
  Claim C7, amended. \<open>stopCamera\<close> is idempotent and leaves no stream. A capture request
  made after it stores nothing and hands nothing to the encoder; and if no encoder callback
  was pending when the camera was stopped, then no sequence of events without a restart
  (a device request of \<open>startCamera\<close> or \<open>retakeAll\<close> that is granted) adds a capture,
  whatever timers and callbacks fire. An encoder callback that was pending at the stop still
  stores its capture.
\<close>

theorem stop_blocks_capture:
  "stopCamera (stopCamera s) = stopCamera s \<and>
   stream (stopCamera s) = None \<and>
   capturedImages (captureImage a w h (stopCamera s)) = capturedImages s \<and>
   toBlobPending (captureImage a w h (stopCamera s)) = toBlobPending s \<and>
   ((\<forall>e\<in>set es. noRestart e) \<and> toBlobPending s = [] \<longrightarrow>
      set (capturedImages (run es (stopCamera s))) \<subseteq> set (capturedImages s)) \<and>
   (toBlobPending s = a # p \<longrightarrow>
      map_of (capturedImages (toBlobCallback (Some b) u now (stopCamera s))) a =
        Some \<lparr>blob = b, url = u, timestamp = now\<rparr>)"
proof -
  have 1: "stream (stopCamera s) = None" "toBlobPending (stopCamera s) = toBlobPending s"
    "capturedImages (stopCamera s) = capturedImages s"
    by (simp_all add: stopCamera_def)
  have 2: "map_of (capturedImages (toBlobCallback (Some b) u now (stopCamera s))) a =
        Some \<lparr>blob = b, url = u, timestamp = now\<rparr>" if "toBlobPending s = a # p"
    using that 1 by (simp add: toBlobCallback_def Let_def update_conv')
  show ?thesis
    using run_stopped [of es "stopCamera s"] 1 2
    by (auto simp: stopCamera_def captureImage_def)
qed

theorem stop_blocks_capture_witness:
  "stream (run (restartedAfter ''Center'') initialState) = Some 2 \<and>
   capturedImages
     (run [CaptureImage ''Up'' 640 480, ToBlobCallback (Some 5) 6 7, VideoPlaying,
           CaptureImage ''Down'' 640 480, AutoStop, CameraTimeout]
        (stopCamera (run (restartedAfter ''Center'') initialState))) =
     capturedImages (run (restartedAfter ''Center'') initialState) \<and>
   toBlobPending (run (captureRequested ''Center'' ''Left'') initialState) = [''Left''] \<and>
   map_of (capturedImages (toBlobCallback (Some 5) 6 7
      (stopCamera (run (captureRequested ''Center'' ''Left'') initialState)))) ''Left'' =
     Some \<lparr>blob = 5, url = 6, timestamp = 7\<rparr>"
  using stop_blocks_capture [of "run (restartedAfter ''Center'') initialState" "''Up''" 640 480
          "[CaptureImage ''Up'' 640 480, ToBlobCallback (Some 5) 6 7, VideoPlaying,
            CaptureImage ''Down'' 640 480, AutoStop, CameraTimeout]"]
        stop_blocks_capture [of "run (captureRequested ''Center'' ''Left'') initialState"
          "''Left''" 640 480 "[]" "[]" 5 6 7]
  by (simp add: session_eval)

text \<open>
  Claim C8, as stated, fails. When no camera is found, \<open>getUserMedia\<close> rejects with
  \<open>NotFoundError\<close>, and \<open>startCamera\<close> of the manual capture shows the message that asks the
  user to allow permissions, the same as for a declined request.
\<close>

theorem permission_message_without_denial:
  "cameraError (startCamera (Rejected ''NotFoundError'') initialState) =
     Some ''Camera access failed. Please allow permissions.'' \<and>
   cameraError (startCamera (Rejected ''NotAllowedError'') initialState) =
     Some ''Camera access failed. Please allow permissions.''"
  by (simp add: startCamera_def startCameraCalled_def getUserMediaSettled_def initialState_def)

text \<open>
  Claim C8, amended. In the manual capture a call of \<open>startCamera\<close> clears the error; when
  its device request is rejected, for whatever reason, the one error message of
  \<open>startCamera\<close> is shown and no stream is stored; when the request is granted, the stream is
  stored and the error is left as it is, so that \<open>startCamera\<close> shows its message exactly for
  a rejected request and no error exactly for a granted one. When the 5 s timer fires while
  there is neither a stream nor an error, the timeout error is shown. In the server-driven
  capture the message for a rejected request depends on the name of the exception: the
  permission message exactly for \<open>NotAllowedError\<close>, the no-camera message exactly for
  \<open>NotFoundError\<close>, the in-use message exactly for \<open>NotReadableError\<close>, and the exception's own
  message after \<open>Error:\<close> for every other name; the message is added to the list as an
  error and no stream is stored; and a camera that never delivers its metadata produces no
  message at all.
\<close>

theorem startCamera_errors:
  "cameraError (startCameraCalled s) = None \<and>
   cameraError (getUserMediaSettled (Rejected name) s) =
     Some ''Camera access failed. Please allow permissions.'' \<and>
   stream (getUserMediaSettled (Rejected name) s) = stream s \<and>
   stream (getUserMediaSettled (Resolved m) s) = Some m \<and>
   cameraError (getUserMediaSettled (Resolved m) s) = cameraError s \<and>
   (cameraError (startCamera outcome s) = Some ''Camera access failed. Please allow permissions.''
      \<longleftrightarrow> (\<exists>n. outcome = Rejected n)) \<and>
   (cameraError (startCamera outcome s) = None \<longleftrightarrow> (\<exists>k. outcome = Resolved k)) \<and>
   (\<forall>k. outcome = Resolved k \<longrightarrow> stream (startCamera outcome s) = Some k) \<and>
   (timeoutPending s \<and> stream s = None \<and> cameraError s = None \<longrightarrow>
      cameraError (step CameraTimeout s) = Some ''Camera timeout. Click Start Camera to try again.'' \<and>
      stream (step CameraTimeout s) = None) \<and>
   (startCameraError name message =
      ''Camera permission denied. Please allow camera access and refresh.''
      \<longleftrightarrow> name = ''NotAllowedError'') \<and>
   (startCameraError name message = ''No camera found. Please connect a camera and try again.''
      \<longleftrightarrow> name = ''NotFoundError'') \<and>
   (startCameraError name message = ''Camera is being used by another application.''
      \<longleftrightarrow> name = ''NotReadableError'') \<and>
   (name \<noteq> ''NotAllowedError'' \<and> name \<noteq> ''NotFoundError'' \<and> name \<noteq> ''NotReadableError'' \<longrightarrow>
      startCameraError name message = ''Error: '' @ message) \<and>
   messages (a_startCamera (CameraRejected name message) t) =
     (startCameraError name message, ''error'') # take 4 (messages t) \<and>
   a_stream (a_startCamera (CameraRejected name message) t) = a_stream t \<and>
   messages (a_startCamera (Stalled m') t) = messages t"
proof -
  have manual:
    "cameraError (startCameraCalled s) = None"
    "cameraError (getUserMediaSettled (Rejected name) s) =
       Some ''Camera access failed. Please allow permissions.''"
    "stream (getUserMediaSettled (Rejected name) s) = stream s"
    "stream (getUserMediaSettled (Resolved m) s) = Some m"
    "cameraError (getUserMediaSettled (Resolved m) s) = cameraError s"
    by (simp_all add: startCameraCalled_def getUserMediaSettled_def)
  have whole:
    "cameraError (startCamera outcome s) = Some ''Camera access failed. Please allow permissions.''
       \<longleftrightarrow> (\<exists>n. outcome = Rejected n)"
    "cameraError (startCamera outcome s) = None \<longleftrightarrow> (\<exists>k. outcome = Resolved k)"
    "\<forall>k. outcome = Resolved k \<longrightarrow> stream (startCamera outcome s) = Some k"
    by (cases outcome; simp add: startCamera_def startCameraCalled_def getUserMediaSettled_def)+
  have timer:
    "timeoutPending s \<and> stream s = None \<and> cameraError s = None \<longrightarrow>
       cameraError (step CameraTimeout s) = Some ''Camera timeout. Click Start Camera to try again.'' \<and>
       stream (step CameraTimeout s) = None"
    by (simp add: cameraTimeout_def initialState_def)
  have names:
    "startCameraError name message =
       ''Camera permission denied. Please allow camera access and refresh.''
       \<longleftrightarrow> name = ''NotAllowedError''"
    "startCameraError name message = ''No camera found. Please connect a camera and try again.''
       \<longleftrightarrow> name = ''NotFoundError''"
    "startCameraError name message = ''Camera is being used by another application.''
       \<longleftrightarrow> name = ''NotReadableError''"
    "name \<noteq> ''NotAllowedError'' \<and> name \<noteq> ''NotFoundError'' \<and> name \<noteq> ''NotReadableError'' \<longrightarrow>
       startCameraError name message = ''Error: '' @ message"
    by (simp_all add: startCameraError_def)
  have server:
    "messages (a_startCamera (CameraRejected name message) t) =
       (startCameraError name message, ''error'') # take 4 (messages t)"
    "a_stream (a_startCamera (CameraRejected name message) t) = a_stream t"
    "messages (a_startCamera (Stalled m') t) = messages t"
    by (simp_all add: a_startCamera_def addMessage_def)
  from manual whole timer names server show ?thesis
    by blast
qed

theorem startCamera_errors_witness:
  "stream (startCamera (Resolved 1) initialState) = Some 1 \<and>
   cameraError (startCamera (Resolved 1) initialState) = None \<and>
   timeoutPending (run [StartCamera] initialState) \<and>
   stream (run [StartCamera] initialState) = None \<and>
   cameraError (run [StartCamera] initialState) = None \<and>
   cameraError (step CameraTimeout (run [StartCamera] initialState)) =
     Some ''Camera timeout. Click Start Camera to try again.'' \<and>
   startCameraError ''NotFoundError'' ''Requested device not found'' =
     ''No camera found. Please connect a camera and try again.'' \<and>
   startCameraError ''NotReadableError'' ''Could not start video source'' =
     ''Camera is being used by another application.'' \<and>
   startCameraError ''OverconstrainedError'' ''Constraints could not be satisfied'' =
     ''Error: Constraints could not be satisfied''"
  using startCamera_errors [of initialState "''NotFoundError''" 1 "Resolved 1"
          "''Requested device not found''"]
        startCamera_errors [of "run [StartCamera] initialState" "''NotReadableError''" 1
          "Resolved 1" "''Could not start video source''"]
        startCamera_errors [of initialState "''OverconstrainedError''" 1 "Resolved 1"
          "''Constraints could not be satisfied''"]
  by (simp add: session_eval)

text \<open>
  Claim C9, as stated, fails on both of its halves. In the manual capture a frame without
  dimensions is not skipped silently: the click on a tile sets the error that the view
  displays. In the server-driven capture an error of another class, a frame request that the
  server answers with an error status, is not shown: the message list stays as it was.
\<close>

theorem invalid_frame_shows_error:
  "cameraError cameraReady = None \<and>
   cameraError (step (CaptureImage ''Center'' 0 0) cameraReady) =
     Some ''Video dimensions not available'' \<and>
   messages (processFrame False (Some ''session_1'') 4 640 480 NotOk 0 sessionRunning) =
     messages sessionRunning"
  by (simp add: session_eval sessionRunning_def advancedInitial_def a_startCamera_def
        addMessage_def processFrame_def)

text \<open>
  Claim C9, amended. In the sampling loop of the server-driven capture, a frame that is
  invalid (the video is not ready, or it has no dimensions) adds no message, and leaves the
  whole state as it is when no other frame is being processed; the next tick samples again.
  In the manual capture a click on a tile while the video is not ready changes nothing
  either, whereas a click on a ready camera whose frame has no dimensions stores nothing,
  hands nothing to the encoder and shows an error. Of the other errors, those of the
  manual capture (a rejected device request, a failed playback, a refused registration) and
  the start errors of the server-driven capture are shown to the user; a frame request of
  the sampling loop that fails, gets an error status or is refused adds no message: it is
  only logged.
\<close>

theorem invalid_frame_handling:
  "((readyState \<noteq> 4 \<or> w = 0 \<or> h = 0) \<longrightarrow>
      messages (processFrame p0 sid0 readyState w h response random t) = messages t \<and>
      (\<not> isProcessing t \<longrightarrow> processFrame p0 sid0 readyState w h response random t = t)) \<and>
   ((response = Throws \<or> response = NotOk \<or> (\<exists>r. response = Result r \<and> \<not> success r)) \<longrightarrow>
      messages (processFrame p0 sid0 readyState w h response random t) = messages t) \<and>
   (\<not> isVideoReady s \<longrightarrow> step (CaptureImage a w h) s = s) \<and>
   (isVideoReady s \<and> stream s \<noteq> None \<and> (w = 0 \<or> h = 0) \<longrightarrow>
      step (CaptureImage a w h) s = s\<lparr>cameraError := Some ''Video dimensions not available''\<rparr>) \<and>
   cameraError (getUserMediaSettled (Rejected name) s) \<noteq> None \<and>
   cameraError (videoPlayFailed s) \<noteq> None \<and>
   (snd (registerBiometric employeeId s) = None \<longrightarrow>
      cameraError (fst (registerBiometric employeeId s)) \<noteq> None) \<and>
   snd (hd (messages (a_startCamera Unsupported t))) = ''error'' \<and>
   snd (hd (messages (a_startCamera (CameraRejected name message) t))) = ''error'' \<and>
   ((\<forall>sid required. session \<noteq> Started sid required) \<longrightarrow>
      snd (hd (messages (a_startCamera (Acquired m session) t))) = ''error'')"
proof -
  have sampling:
    "(readyState \<noteq> 4 \<or> w = 0 \<or> h = 0) \<longrightarrow>
       messages (processFrame p0 sid0 readyState w h response random t) = messages t \<and>
       (\<not> isProcessing t \<longrightarrow> processFrame p0 sid0 readyState w h response random t = t)"
    "(response = Throws \<or> response = NotOk \<or> (\<exists>r. response = Result r \<and> \<not> success r)) \<longrightarrow>
       messages (processFrame p0 sid0 readyState w h response random t) = messages t"
    by (auto simp: processFrame_def)
  have click:
    "\<not> isVideoReady s \<longrightarrow> step (CaptureImage a w h) s = s"
    "isVideoReady s \<and> stream s \<noteq> None \<and> (w = 0 \<or> h = 0) \<longrightarrow>
       step (CaptureImage a w h) s = s\<lparr>cameraError := Some ''Video dimensions not available''\<rparr>"
    by (auto simp: captureImage_def)
  have shown:
    "cameraError (getUserMediaSettled (Rejected name) s) \<noteq> None"
    "cameraError (videoPlayFailed s) \<noteq> None"
    "snd (registerBiometric employeeId s) = None \<longrightarrow>
       cameraError (fst (registerBiometric employeeId s)) \<noteq> None"
    by (auto simp: getUserMediaSettled_def videoPlayFailed_def registerBiometric_def Let_def
          split: option.splits)
  have start:
    "snd (hd (messages (a_startCamera Unsupported t))) = ''error''"
    "snd (hd (messages (a_startCamera (CameraRejected name message) t))) = ''error''"
    "(\<forall>sid required. session \<noteq> Started sid required) \<longrightarrow>
       snd (hd (messages (a_startCamera (Acquired m session) t))) = ''error''"
    by (cases session; simp add: a_startCamera_def addMessage_def)+
  from sampling click shown start show ?thesis
    by blast
qed

theorem invalid_frame_handling_witness:
  "processFrame False (Some ''session_1'') 2 640 480 Throws 0 sessionRunning = sessionRunning \<and>
   processFrame False (Some ''session_1'') 4 0 0 Throws 0 sessionRunning = sessionRunning \<and>
   messages (processFrame False (Some ''session_1'') 4 640 480
      (Result \<lparr>success = False, face_detected = False, progress = None, auto_captured = False,
               captured_angle = '''', session_complete = False, r_message = None\<rparr>)
      0 sessionRunning) = messages sessionRunning \<and>
   step (CaptureImage ''Center'' 640 480) (run [StartCamera, GetUserMediaSettles (Resolved 1)]
      initialState) = run [StartCamera, GetUserMediaSettles (Resolved 1)] initialState \<and>
   step (CaptureImage ''Center'' 0 0) cameraReady =
     cameraReady\<lparr>cameraError := Some ''Video dimensions not available''\<rparr> \<and>
   cameraError (fst (registerBiometric (Some ''EMP_001'') cameraReady)) =
     Some ''Need at least 2 captured images and valid employee ID'' \<and>
   messages (a_startCamera (Acquired 1 (HttpError ''500'')) advancedInitial) =
     [(''Error: Server error: 500'', ''error''), (''Camera connected successfully!'', ''success'')]"
  using invalid_frame_handling [of 2 640 480 False "Some ''session_1''" Throws 0 sessionRunning
          "run [StartCamera, GetUserMediaSettles (Resolved 1)] initialState" "''Center''"
          "''NotFoundError''" "Some ''EMP_001''" "''''" "HttpError ''500''" 1]
        invalid_frame_handling [of 4 0 0 False "Some ''session_1''" Throws 0 sessionRunning
          cameraReady "''Center''" "''NotFoundError''" "Some ''EMP_001''" "''''"
          "HttpError ''500''" 1]
        invalid_frame_handling [of 4 640 480 False "Some ''session_1''"
          "Result \<lparr>success = False, face_detected = False, progress = None,
             auto_captured = False, captured_angle = '''', session_complete = False,
             r_message = None\<rparr>" 0 sessionRunning
          cameraReady "''Center''" "''NotFoundError''" "Some ''EMP_001''" "''''"
          "HttpError ''500''" 1]
  by (simp add: session_eval sessionRunning_def advancedInitial_def a_startCamera_def
        addMessage_def processFrame_def startCameraError_def)

end
